theory Spec2Isabelle
  imports Complex_Main
begin

section \<open>Values shared by the two modules\<close>

text \<open>
  A failure is the array \<^verbatim>\<open>[code, message, details]\<close> that the callbacks of both
  modules pass as an error: a numeric class, a symbolic reason and an optional payload,
  which in \<^verbatim>\<open>get_routes_for_funding\<close> is \<^verbatim>\<open>{err}\<close>, the failure of a collaborator.
  Collaborators fail with values of the same shape.
\<close>

datatype failure =
  Failure nat string "failure option"
  | Exception string
  | Wrapped failure

text \<open>
  \<open>Exception\<close> is an \<^verbatim>\<open>Error\<close> object that a collaborator throws, with its message.
  \<open>Wrapped err\<close> is the \<^verbatim>\<open>new Error(err)\<close> that \<^verbatim>\<open>async\<close> makes when a task or an
  iteratee written as an \<^verbatim>\<open>async\<close> function rejects with a value \<open>err\<close> that is not an
  \<^verbatim>\<open>Error\<close> and has no \<^verbatim>\<open>message\<close>: the failure arrays are such values.
\<close>

fun asyncify_error :: "failure \<Rightarrow> failure" where
  "asyncify_error (Failure c m d) = Wrapped (Failure c m d)"
| "asyncify_error (Exception m) = Exception m"
| "asyncify_error (Wrapped err) = Wrapped err"

text \<open>The authenticated LND API object and the logger are opaque handles.\<close>

datatype lnd = Lnd

datatype logger = Logger

text \<open>
  JavaScript truthiness of the optional values the code tests with \<^verbatim>\<open>!\<close> and
  \<^verbatim>\<open>||\<close>: \<^verbatim>\<open>undefined\<close> is \<open>None\<close>; the number \<^verbatim>\<open>0\<close> and the empty string are
  falsy as well; every object and every array, the empty one included, is truthy.
\<close>

definition truthy_num :: "int option \<Rightarrow> bool" where
  "truthy_num v = (case v of None \<Rightarrow> False | Some n \<Rightarrow> n \<noteq> 0)"

definition truthy_str :: "string option \<Rightarrow> bool" where
  "truthy_str v = (case v of None \<Rightarrow> False | Some s \<Rightarrow> s \<noteq> [])"

text \<open>
  A relational comparison with \<^verbatim>\<open>undefined\<close> converts it to \<^verbatim>\<open>NaN\<close> and is
  false.
\<close>

definition js_lt :: "int \<Rightarrow> int option \<Rightarrow> bool" where
  "js_lt a b = (case b of None \<Rightarrow> False | Some y \<Rightarrow> a < y)"

definition js_gt :: "int \<Rightarrow> int option \<Rightarrow> bool" where
  "js_gt a b = (case b of None \<Rightarrow> False | Some y \<Rightarrow> a > y)"

section \<open>\<^verbatim>\<open>swaps/get_routes_for_funding.js\<close>\<close>

subsection \<open>Data\<close>

text \<open>
  The request. Every field is optional in JavaScript, whatever the documentation says;
  \<open>max_paths\<close> is a JavaScript Number, which need not be whole or positive, kept as a
  rational. The fields that the module only hands on to its
  collaborators (\<^verbatim>\<open>features\<close>, \<^verbatim>\<open>ignore\<close>, \<^verbatim>\<open>outgoing_channel\<close>, \<^verbatim>\<open>payment\<close>,
  \<^verbatim>\<open>routes\<close>, \<^verbatim>\<open>in_through\<close>) are not listed: the collaborators below receive the
  whole request.
\<close>

record args =
  cltv_delta :: "int option"
  destination :: "string option"
  lnd :: "lnd option"
  logger :: "logger option"
  max_fee :: "int option"
  max_paths :: "rat option"
  out_through :: "string option"
  tokens :: "int option"

text \<open>
  A route, as far as the module reads it: only \<open>fee\<close> is read, the rest is carried
  through unchanged.
\<close>

record route =
  fee :: int
  hops :: "string list"
  timeout :: int

text \<open>What \<^verbatim>\<open>executeProbe\<close> answers on success: its route is optional.\<close>

record single_path =
  route :: "route option"

text \<open>A probe collected by the multi-path loop.\<close>

record probe =
  latency_ms :: int
  relays :: "string list"
  route_maximum :: int
  success :: "string list"

text \<open>
  What \<^verbatim>\<open>multiPathProbe\<close> answers when it does not fail: a probe, a soft failure
  (\<^verbatim>\<open>res.error\<close>), both or neither.
\<close>

record probe_attempt =
  probe :: "probe option"
  error :: "failure option"

text \<open>The summary of one probe and the value of the task \<^verbatim>\<open>getMultiLimits\<close>.\<close>

record probe_summary =
  channels :: "string list"
  liquidity :: int
  relays :: "string list"

record multi_limits =
  latency_ms :: int
  probes :: "probe_summary list"
  routes_max :: int

record channel =
  channel_id :: string
  capacity :: int

record multi_support =
  is_multi_supported :: bool

text \<open>The value the module resolves with.\<close>

record routing_result =
  fee :: int
  routes :: "route list"

text \<open>
  The collaborators (\<^verbatim>\<open>ln-service\<close> and \<^verbatim>\<open>./../network\<close>), as the answers they give
  during one request. \<open>getWalletVersion\<close> is the error of its callback, if any.
  \<open>executeProbe\<close> receives the request and \<^verbatim>\<open>total_mtokens\<close>. \<open>multiPathProbe\<close>
  receives the probes collected so far; it is a network call, so its answer may differ
  between two calls with the same probes, and the second argument is the number of
  earlier calls. \<open>multiPathPayment\<close> receives the request, the channels, the height,
  \<^verbatim>\<open>max\<close>, \<^verbatim>\<open>mtokens\<close> and the probe summaries; a thrown exception is \<open>Inl\<close>.
\<close>

record network =
  getWalletVersion :: "failure option"
  executeProbe :: "args \<Rightarrow> int option \<Rightarrow> failure + single_path"
  multiPathProbe :: "probe list \<Rightarrow> nat \<Rightarrow> failure + probe_attempt"
  getChannel :: "string \<Rightarrow> failure + channel"
  getWalletInfo :: "failure + int"
  multiPathPayment ::
    "args \<Rightarrow> channel list \<Rightarrow> int \<Rightarrow> int \<Rightarrow> int option \<Rightarrow> probe_summary list
      \<Rightarrow> failure + route list"

text \<open>
  The calls a request makes, in the order it makes them. \<open>MultiPathProbe n\<close> is a call
  of the prober with \<open>n\<close> probes collected so far.
\<close>

datatype call =
  GetWalletVersion
  | ExecuteProbe
  | MultiPathProbe nat
  | GetChannel string
  | GetWalletInfo
  | MultiPathPayment

subsection \<open>Helpers\<close>

definition defaultMaxPaths :: rat where
  "defaultMaxPaths = 7"

definition flatten :: "'a list list \<Rightarrow> 'a list" where
  "flatten arr = concat arr"

definition sumOf :: "int list \<Rightarrow> int" where
  "sumOf arr = foldl (\<lambda>sum n. sum + n) 0 arr"

text \<open>
  \<^verbatim>\<open>BigInt(tokens) * BigInt(1e3)\<close>; the decimal string is kept as the integer it
  writes.
\<close>

definition tokensAsMtokens :: "int \<Rightarrow> int" where
  "tokensAsMtokens n = n * 1000"

text \<open>
  \<^verbatim>\<open>Array.from(new Set(arr))\<close>: a set keeps the order of first insertion.
\<close>

definition uniq :: "'a list \<Rightarrow> 'a list" where
  "uniq arr = fold (\<lambda>x seen. if x \<in> set seen then seen else seen @ [x]) arr []"

subsection \<open>The tasks\<close>

definition validate :: "args \<Rightarrow> failure option" where
  "validate a =
     (if \<not> truthy_num (cltv_delta a) then
        Some (Failure 400 ''ExpectedCltvDeltaToGetRoutesForFunding'' None)
      else if \<not> truthy_str (destination a) then
        Some (Failure 400 ''ExpectedDestinationToGetRoutesForFunding'' None)
      else if args.lnd a = None then
        Some (Failure 400 ''ExpectedLndToGetRoutesForFunding'' None)
      else if logger a = None then
        Some (Failure 400 ''ExpectedLoggerToGetRoutesForFunding'' None)
      else if \<not> truthy_num (tokens a) then
        Some (Failure 400 ''ExpectedTokensToGetRoutesForFunding'' None)
      else None)"

text \<open>The callback of \<^verbatim>\<open>getMultiSupport\<close> never receives an error.\<close>

definition getMultiSupport :: "network \<Rightarrow> args \<Rightarrow> call list \<times> (failure + multi_support)" where
  "getMultiSupport net a =
     ([GetWalletVersion], Inr \<lparr>is_multi_supported = (getWalletVersion net = None)\<rparr>)"

definition getSinglePath :: "network \<Rightarrow> args \<Rightarrow> call list \<times> (failure + single_path)" where
  "getSinglePath net a =
     ([ExecuteProbe],
      case executeProbe net a (map_option tokensAsMtokens (tokens a)) of
        Inl err \<Rightarrow> Inl (Failure 503 ''UnexpectedErrorFindingRouteToFundSwap'' (Some err))
      | Inr res \<Rightarrow> Inr res)"

text \<open>
  The state of the loop of \<^verbatim>\<open>getMultiLimits\<close>: the variables \<^verbatim>\<open>probes\<close> and
  \<^verbatim>\<open>error\<close>, and a log of the calls of the prober so far, each with the number of
  probes it was given and its answer.
\<close>

record accumulation =
  probes :: "probe list"
  error :: "failure option"
  log :: "(nat \<times> (failure + probe_attempt)) list"

text \<open>\<^verbatim>\<open>let error; const probes = [];\<close>\<close>

definition whilst_start :: accumulation where
  "whilst_start = \<lparr>accumulation.probes = [], accumulation.error = None, log = []\<rparr>"

text \<open>
  \<^verbatim>\<open>args.max_paths || defaultMaxPaths\<close>, and the test of the loop, which compares it
  with \<^verbatim>\<open>probes.length\<close> by \<^verbatim>\<open>===\<close>.
\<close>

definition path_cap :: "args \<Rightarrow> rat" where
  "path_cap a =
     (case max_paths a of
        None \<Rightarrow> defaultMaxPaths
      | Some n \<Rightarrow> if n = 0 then defaultMaxPaths else n)"

definition whilst_test :: "args \<Rightarrow> accumulation \<Rightarrow> bool" where
  "whilst_test a s =
     (if path_cap a = of_nat (length (accumulation.probes s)) then False
      else accumulation.error s = None)"

definition whilst_iteratee :: "network \<Rightarrow> args \<Rightarrow> accumulation \<Rightarrow> failure option \<times> accumulation" where
  "whilst_iteratee net a s =
     (let n = length (accumulation.probes s);
          answer = multiPathProbe net (accumulation.probes s) (length (log s))
      in case answer of
           Inl err \<Rightarrow> (Some err, s\<lparr>log := log s @ [(n, answer)]\<rparr>)
         | Inr res \<Rightarrow>
             (None,
              \<lparr>accumulation.probes =
                 (case probe res of
                    Some p \<Rightarrow> accumulation.probes s @ [p]
                  | None \<Rightarrow> accumulation.probes s),
               accumulation.error =
                 (case probe_attempt.error res of
                    Some e \<Rightarrow> Some e
                  | None \<Rightarrow> accumulation.error s),
               log = log s @ [(n, answer)]\<rparr>))"

text \<open>
  \<^verbatim>\<open>asyncWhilst\<close>: test, iterate, test again, until the test fails or the iteratee
  passes an error. Nothing bounds the number of iterations (a prober that answers with
  neither a probe nor an error is called again), so the loop carries fuel: \<open>Running\<close>
  is a loop that has not ended when the fuel is spent, \<open>Ended err\<close> one whose final
  callback was called with \<open>err\<close>.
\<close>

datatype whilst_status = Running | Ended "failure option"

fun asyncWhilst :: "nat \<Rightarrow> network \<Rightarrow> args \<Rightarrow> accumulation \<Rightarrow> whilst_status \<times> accumulation" where
  "asyncWhilst 0 net a s = (Running, s)"
| "asyncWhilst (Suc k) net a s =
     (if \<not> whilst_test a s then (Ended None, s)
      else case whilst_iteratee net a s of
             (Some err, s') \<Rightarrow> (Ended (Some err), s')
           | (None, s') \<Rightarrow> asyncWhilst k net a s')"

text \<open>The final callback of the loop.\<close>

definition whilst_done :: "failure option \<Rightarrow> accumulation \<Rightarrow> failure + multi_limits option" where
  "whilst_done err s =
     (case err of
        Some e \<Rightarrow> Inl e
      | None \<Rightarrow>
          if accumulation.probes s = [] then
            (case accumulation.error s of Some e \<Rightarrow> Inl e | None \<Rightarrow> Inr None)
          else
            Inr (Some
              \<lparr>multi_limits.latency_ms =
                 foldl (\<lambda>sum n. sum + n) 0 (map probe.latency_ms (accumulation.probes s)),
               multi_limits.probes =
                 map (\<lambda>p. \<lparr>channels = success p, liquidity = route_maximum p,
                            probe_summary.relays = probe.relays p\<rparr>)
                   (accumulation.probes s),
               routes_max =
                 foldl (\<lambda>sum n. sum + n) 0 (map route_maximum (accumulation.probes s))\<rparr>))"

text \<open>
  An answer of the prober, as the log holds it, that is neither a hard error nor a soft
  failure: the only kind of answer after which the test lets the loop go on.
\<close>

definition answered_cleanly :: "nat \<times> (failure + probe_attempt) \<Rightarrow> bool" where
  "answered_cleanly e =
     (case snd e of Inl err \<Rightarrow> False | Inr res \<Rightarrow> probe_attempt.error res = None)"

definition getMultiLimits ::
  "nat \<Rightarrow> network \<Rightarrow> args \<Rightarrow> multi_support \<Rightarrow> (call list \<times> (failure + multi_limits option)) option" where
  "getMultiLimits fuel net a support =
     (if \<not> is_multi_supported support then Some ([], Inr None)
      else if truthy_str (out_through a) then Some ([], Inr None)
      else case asyncWhilst fuel net a whilst_start of
             (Running, s) \<Rightarrow> None
           | (Ended err, s) \<Rightarrow> Some (map (\<lambda>(n, answer). MultiPathProbe n) (log s), whilst_done err s))"

text \<open>
  \<^verbatim>\<open>asyncMap\<close> over the channel ids: every call is started; the map fails with the
  failure of a call if one fails (here the first in the order of the ids). The iteratee
  is an \<^verbatim>\<open>async\<close> function, and so is the task \<^verbatim>\<open>getMultiPaths\<close>: what they reject
  with reaches the final callback through \<open>asyncify_error\<close>.
\<close>

fun asyncMap :: "('a \<Rightarrow> failure + 'b) \<Rightarrow> 'a list \<Rightarrow> failure + 'b list" where
  "asyncMap f [] = Inr []"
| "asyncMap f (x # xs) =
     (case f x of
        Inl err \<Rightarrow> Inl err
      | Inr y \<Rightarrow> (case asyncMap f xs of Inl err \<Rightarrow> Inl err | Inr ys \<Rightarrow> Inr (y # ys)))"

definition getMultiPaths ::
  "network \<Rightarrow> args \<Rightarrow> multi_limits option \<Rightarrow> call list \<times> (failure + route list option)" where
  "getMultiPaths net a getMultiLimits' =
     (case getMultiLimits' of
        None \<Rightarrow> ([], Inr None)
      | Some limits \<Rightarrow>
          if js_lt (routes_max limits) (tokens a) then ([], Inr None)
          else
            (let ids = flatten (map channels (multi_limits.probes limits));
                 fetches = map GetChannel (uniq ids)
             in (case asyncMap (getChannel net) (uniq ids) of
                   Inl err \<Rightarrow> (fetches, Inl (asyncify_error err))
                 | Inr chans \<Rightarrow>
                     (case getWalletInfo net of
                        Inl err \<Rightarrow> (fetches @ [GetWalletInfo], Inl (asyncify_error err))
                      | Inr height \<Rightarrow>
                          (fetches @ [GetWalletInfo, MultiPathPayment],
                           (case multiPathPayment net a chans height (routes_max limits)
                                   (map_option tokensAsMtokens (tokens a))
                                   (multi_limits.probes limits) of
                              Inl err \<Rightarrow> Inl (asyncify_error err)
                            | Inr rs \<Rightarrow> Inr (Some rs)))))))"

text \<open>
  \<^verbatim>\<open>getMultiPaths || [getSinglePath.route].filter(n => !!n)\<close>: an array is truthy
  even when it is empty, so only \<^verbatim>\<open>undefined\<close> gives way to the single path.
\<close>

definition paths :: "route list option \<Rightarrow> single_path \<Rightarrow> route list" where
  "paths getMultiPaths' getSinglePath' =
     (case getMultiPaths' of
        Some rs \<Rightarrow> rs
      | None \<Rightarrow> List.map_filter (\<lambda>n. n) [route getSinglePath'])"

definition result :: "args \<Rightarrow> route list option \<Rightarrow> single_path \<Rightarrow> failure + routing_result" where
  "result a getMultiPaths' getSinglePath' =
     (let ps = paths getMultiPaths' getSinglePath'
      in if ps = [] \<or> js_gt (sumOf (map route.fee ps)) (max_fee a) then
           Inl (Failure 503 ''FailedToFindAPathToFundSwapOffchain'' None)
         else
           Inr \<lparr>routing_result.fee = sumOf (map route.fee ps), routes = ps\<rparr>)"

text \<open>
  \<^verbatim>\<open>asyncAuto\<close> starts a task when the tasks it names have called back without an
  error, and calls the final callback with the first error a task passes; no task is
  started after that. \<open>validate\<close> comes first; \<open>getMultiSupport\<close> and \<open>getSinglePath\<close>
  are both started (their calls are both made) before either answers;
  \<open>getMultiLimits\<close> waits for both, \<open>getMultiPaths\<close> for \<open>getMultiLimits\<close>, and
  \<open>result\<close> for \<open>getMultiPaths\<close> and \<open>getSinglePath\<close>. The value is the list of calls
  made and what the promise settles with; \<open>None\<close> is a request whose loop has not ended
  when the fuel is spent.
\<close>

definition get_routes_for_funding ::
  "nat \<Rightarrow> network \<Rightarrow> args \<Rightarrow> (call list \<times> (failure + routing_result)) option" where
  "get_routes_for_funding fuel net a =
     (case validate a of
        Some err \<Rightarrow> Some ([], Inl err)
      | None \<Rightarrow>
          (case (getMultiSupport net a, getSinglePath net a) of
             ((c1, Inl err), (c2, _)) \<Rightarrow> Some (c1 @ c2, Inl err)
           | ((c1, Inr support), (c2, Inl err)) \<Rightarrow> Some (c1 @ c2, Inl err)
           | ((c1, Inr support), (c2, Inr single)) \<Rightarrow>
               (case getMultiLimits fuel net a support of
                  None \<Rightarrow> None
                | Some (c3, Inl err) \<Rightarrow> Some (c1 @ c2 @ c3, Inl err)
                | Some (c3, Inr limits) \<Rightarrow>
                    (case getMultiPaths net a limits of
                       (c4, Inl err) \<Rightarrow> Some (c1 @ c2 @ c3 @ c4, Inl err)
                     | (c4, Inr multi) \<Rightarrow> Some (c1 @ c2 @ c3 @ c4, result a multi single)))))"

section \<open>\<^verbatim>\<open>balances/get_balance.js\<close>\<close>

subsection \<open>Data\<close>

record balance_args =
  above :: "int option"
  below :: "int option"
  is_confirmed :: "bool option"
  is_offchain_only :: "bool option"
  is_onchain_only :: "bool option"
  lnd :: "lnd option"

text \<open>
  A channel as \<^verbatim>\<open>getChannels\<close> lists it, as far as the module reads it.
  \<open>is_partner_initiated\<close> is compared with \<^verbatim>\<open>=== false\<close>, which tells \<^verbatim>\<open>false\<close>
  from a field that is not there.
\<close>

record channel_info =
  commit_transaction_fee :: int
  is_partner_initiated :: "bool option"

text \<open>What \<^verbatim>\<open>getChannelBalance\<close> answers.\<close>

record channel_funds =
  channel_balance :: int
  pending_balance :: int

record balance_result =
  balance :: int
  channel_balance :: int

text \<open>
  The four queries of the node, as the answers they give during one call:
  \<open>getChainBalance\<close> answers \<^verbatim>\<open>chain_balance\<close>, \<open>getChannels\<close> answers \<^verbatim>\<open>channels\<close>
  and \<open>getPendingChainBalance\<close> answers \<^verbatim>\<open>pending_chain_balance\<close>.
\<close>

record node =
  getChainBalance :: "failure + int"
  getChannelBalance :: "failure + channel_funds"
  getChannels :: "failure + channel_info list"
  getPendingChainBalance :: "failure + int"

subsection \<open>The tasks\<close>

definition none :: int where
  "none = 0"

definition truthy_bool :: "bool option \<Rightarrow> bool" where
  "truthy_bool v = (v = Some True)"

definition validate_balance :: "balance_args \<Rightarrow> failure option" where
  "validate_balance a =
     (if balance_args.lnd a = None then Some (Failure 400 ''ExpectedLndToGetBalance'' None)
      else None)"

text \<open>
  The task \<^verbatim>\<open>balance\<close>. \<^verbatim>\<open>./balance_from_tokens\<close> is not among the sources; it is
  the parameter \<open>balanceFromTokens\<close>, applied to \<^verbatim>\<open>above\<close>, \<^verbatim>\<open>below\<close> and
  \<^verbatim>\<open>tokens\<close>.
\<close>

definition futureCommitFees :: "channel_info list \<Rightarrow> int" where
  "futureCommitFees chans =
     foldl (\<lambda>sum n. sum + commit_transaction_fee n) 0
       (filter (\<lambda>n. is_partner_initiated n = Some False) chans)"

definition balance_task ::
  "(int option \<Rightarrow> int option \<Rightarrow> int list \<Rightarrow> int) \<Rightarrow> balance_args \<Rightarrow>
     int \<Rightarrow> channel_funds \<Rightarrow> channel_info list \<Rightarrow> int \<Rightarrow> balance_result" where
  "balance_task balanceFromTokens a chain_balance getChanBalance chans pending_chain_balance =
     (let pendingChain =
            (if truthy_bool (is_offchain_only a) \<or> truthy_bool (is_confirmed a) then none
             else pending_chain_balance);
          pendingChanToks =
            (if truthy_bool (is_onchain_only a) \<or> truthy_bool (is_confirmed a) then none
             else pending_balance getChanBalance);
          balances =
            [if truthy_bool (is_offchain_only a) then none else chain_balance,
             if truthy_bool (is_onchain_only a) then none
             else channel_funds.channel_balance getChanBalance,
             if truthy_bool (is_onchain_only a) then none else - futureCommitFees chans,
             pendingChain,
             pendingChanToks]
      in \<lparr>balance = balanceFromTokens (above a) (below a) balances,
          balance_result.channel_balance =
            channel_funds.channel_balance getChanBalance - futureCommitFees chans\<rparr>)"

text \<open>
  The four queries are started together after \<^verbatim>\<open>validate\<close> and \<^verbatim>\<open>lnd\<close>; the
  call fails with the failure of a query if one fails (here the first in the order of
  the tasks) and runs \<^verbatim>\<open>balance\<close> when all four have answered.
\<close>

definition get_balance ::
  "(int option \<Rightarrow> int option \<Rightarrow> int list \<Rightarrow> int) \<Rightarrow> node \<Rightarrow> balance_args \<Rightarrow>
     failure + balance_result" where
  "get_balance balanceFromTokens nd a =
     (case validate_balance a of
        Some err \<Rightarrow> Inl err
      | None \<Rightarrow>
          (case getChainBalance nd of
             Inl err \<Rightarrow> Inl err
           | Inr chain_balance \<Rightarrow>
               (case getChannelBalance nd of
                  Inl err \<Rightarrow> Inl err
                | Inr getChanBalance \<Rightarrow>
                    (case getChannels nd of
                       Inl err \<Rightarrow> Inl err
                     | Inr chans \<Rightarrow>
                         (case getPendingChainBalance nd of
                            Inl err \<Rightarrow> Inl err
                          | Inr pending \<Rightarrow>
                              Inr (balance_task balanceFromTokens a chain_balance
                                     getChanBalance chans pending))))))"

section \<open>Example requests, networks and nodes\<close>

text \<open>
  The request of the specification's scenarios, and a network on which the capability
  check succeeds, the single path costs 500 and two probes of 90000 and 60000 tokens
  are found before the prober reports that there is no further path.
\<close>

definition args_a :: args where
  "args_a =
     \<lparr>cltv_delta = Some 40, destination = Some ''03aa'', args.lnd = Some Lnd,
      logger = Some Logger, max_fee = Some 1000, max_paths = None, out_through = None,
      tokens = Some 100000\<rparr>"

definition route_single :: route where
  "route_single = \<lparr>route.fee = 500, hops = [''700x1x0''], timeout = 800144\<rparr>"

definition route_left :: route where
  "route_left = \<lparr>route.fee = 100, hops = [''700x2x0''], timeout = 800144\<rparr>"

definition route_right :: route where
  "route_right = \<lparr>route.fee = 200, hops = [''700x3x1'', ''700x2x0''], timeout = 800184\<rparr>"

definition probe_left :: probe where
  "probe_left =
     \<lparr>probe.latency_ms = 120, probe.relays = [''02bb''], route_maximum = 90000,
      success = [''700x2x0'']\<rparr>"

definition probe_right :: probe where
  "probe_right =
     \<lparr>probe.latency_ms = 80, probe.relays = [''02cc'', ''02bb''], route_maximum = 60000,
      success = [''700x3x1'', ''700x2x0'']\<rparr>"

definition no_more_paths :: failure where
  "no_more_paths = Failure 503 ''FailedToFindAnyPathToDestination'' None"

definition link_down :: failure where
  "link_down = Failure 503 ''UnexpectedErrorFromProbe'' None"

definition net_a :: network where
  "net_a =
     \<lparr>getWalletVersion = None,
      executeProbe = (\<lambda>a mtokens. Inr \<lparr>route = Some route_single\<rparr>),
      multiPathProbe =
        (\<lambda>ps n.
           if n = 0 then Inr \<lparr>probe = Some probe_left, probe_attempt.error = None\<rparr>
           else if n = 1 then Inr \<lparr>probe = Some probe_right, probe_attempt.error = None\<rparr>
           else Inr \<lparr>probe = None, probe_attempt.error = Some no_more_paths\<rparr>),
      getChannel = (\<lambda>i. Inr \<lparr>channel_id = i, capacity = 16777215\<rparr>),
      getWalletInfo = Inr 800000,
      multiPathPayment = (\<lambda>a chans height mx mtokens ps. Inr [route_left, route_right])\<rparr>"

text \<open>
  Variations: a request without a fee budget, one without a destination, one with a
  budget of 100, one for 200000 tokens, one that pins the peer to leave through; a
  network whose wallet does not answer the version query, one whose synthesizer returns
  no route, one whose probe executor fails, and one whose prober fails on its second
  call.
\<close>

definition args_no_budget :: args where
  "args_no_budget = args_a\<lparr>max_fee := None\<rparr>"

definition args_no_destination :: args where
  "args_no_destination = args_a\<lparr>destination := None\<rparr>"

definition args_tight :: args where
  "args_tight = args_a\<lparr>max_fee := Some 100\<rparr>"

definition args_large :: args where
  "args_large = args_a\<lparr>tokens := Some 200000\<rparr>"

definition args_large_tight :: args where
  "args_large_tight = args_a\<lparr>tokens := Some 200000, max_fee := Some 100\<rparr>"

definition args_pinned :: args where
  "args_pinned = args_a\<lparr>out_through := Some ''02dd''\<rparr>"

definition net_unsupported :: network where
  "net_unsupported =
     net_a\<lparr>getWalletVersion := Some (Failure 501 ''VersionMethodUnsupported'' None)\<rparr>"

definition net_no_synthesis :: network where
  "net_no_synthesis = net_a\<lparr>multiPathPayment := (\<lambda>a chans height mx mtokens ps. Inr [])\<rparr>"

definition net_probe_down :: network where
  "net_probe_down = net_a\<lparr>executeProbe := (\<lambda>a mtokens. Inl link_down)\<rparr>"

definition net_second_down :: network where
  "net_second_down =
     net_a\<lparr>multiPathProbe :=
       (\<lambda>ps n.
          if n = 0 then Inr \<lparr>probe = Some probe_left, probe_attempt.error = None\<rparr>
          else Inl link_down)\<rparr>"

text \<open>A network whose prober finds no path at all.\<close>

definition net_no_path :: network where
  "net_no_path =
     net_a\<lparr>multiPathProbe :=
       (\<lambda>ps n. Inr \<lparr>probe = None, probe_attempt.error = Some no_more_paths\<rparr>)\<rparr>"

text \<open>
  A request whose \<open>max_paths\<close> is 2.5, and a network whose prober finds four probes
  before it reports that there is no further path.
\<close>

definition args_fraction :: args where
  "args_fraction = args_a\<lparr>max_paths := Some (5 / 2)\<rparr>"

definition net_many :: network where
  "net_many =
     net_a\<lparr>multiPathProbe :=
       (\<lambda>ps n.
          if n < 4 then
            Inr \<lparr>probe = Some (if n = 1 \<or> n = 3 then probe_right else probe_left),
                 probe_attempt.error = None\<rparr>
          else Inr \<lparr>probe = None, probe_attempt.error = Some no_more_paths\<rparr>)\<rparr>"

text \<open>A node with four channels, two of them opened by this node.\<close>

definition sum_tokens :: "int option \<Rightarrow> int option \<Rightarrow> int list \<Rightarrow> int" where
  "sum_tokens ab be toks = sum_list toks"

definition node_a :: node where
  "node_a =
     \<lparr>getChainBalance = Inr 5000,
      getChannelBalance = Inr \<lparr>channel_funds.channel_balance = 1000, pending_balance = 40\<rparr>,
      getChannels =
        Inr [\<lparr>commit_transaction_fee = 10, is_partner_initiated = Some False\<rparr>,
             \<lparr>commit_transaction_fee = 20, is_partner_initiated = Some True\<rparr>,
             \<lparr>commit_transaction_fee = 5, is_partner_initiated = None\<rparr>,
             \<lparr>commit_transaction_fee = 7, is_partner_initiated = Some False\<rparr>],
      getPendingChainBalance = Inr 300\<rparr>"

definition balance_args_a :: balance_args where
  "balance_args_a =
     \<lparr>above = None, below = None, is_confirmed = None, is_offchain_only = None,
      is_onchain_only = None, balance_args.lnd = Some Lnd\<rparr>"

section \<open>Unfolding the tasks\<close>

lemmas funding_defs =
  get_routes_for_funding_def validate_def getMultiSupport_def getSinglePath_def
  getMultiLimits_def getMultiPaths_def result_def paths_def whilst_start_def whilst_test_def
  whilst_iteratee_def whilst_done_def path_cap_def defaultMaxPaths_def truthy_num_def
  truthy_str_def js_lt_def js_gt_def sumOf_def flatten_def uniq_def tokensAsMtokens_def
  List.map_filter_def

lemmas example_defs =
  args_a_def net_a_def route_single_def route_left_def route_right_def probe_left_def
  probe_right_def no_more_paths_def link_down_def

section \<open>Sums\<close>

lemma foldl_plus_sum_list: "foldl (\<lambda>sum n. sum + n) acc xs = acc + sum_list xs"
  for acc :: int
  by (induction xs arbitrary: acc) simp_all

lemma sumOf_sum_list: "sumOf xs = sum_list xs"
  by (simp add: sumOf_def foldl_plus_sum_list)

section \<open>The request as a whole\<close>

text \<open>
  A request that passes validation makes the version query and the single probe, and
  goes on to the multi-path tasks only when the single probe has answered without an
  error.
\<close>

lemma run_validated:
  assumes "validate a = None"
  shows "get_routes_for_funding fuel net a =
     (case executeProbe net a (map_option tokensAsMtokens (tokens a)) of
        Inl err \<Rightarrow>
          Some ([GetWalletVersion, ExecuteProbe],
                Inl (Failure 503 ''UnexpectedErrorFindingRouteToFundSwap'' (Some err)))
      | Inr single \<Rightarrow>
          (case getMultiLimits fuel net a \<lparr>is_multi_supported = (getWalletVersion net = None)\<rparr> of
             None \<Rightarrow> None
           | Some (c3, Inl err) \<Rightarrow> Some (GetWalletVersion # ExecuteProbe # c3, Inl err)
           | Some (c3, Inr limits) \<Rightarrow>
               (case getMultiPaths net a limits of
                  (c4, Inl err) \<Rightarrow> Some (GetWalletVersion # ExecuteProbe # c3 @ c4, Inl err)
                | (c4, Inr multi) \<Rightarrow>
                    Some (GetWalletVersion # ExecuteProbe # c3 @ c4, result a multi single))))"
  using assms
  by (simp add: get_routes_for_funding_def getMultiSupport_def getSinglePath_def
      split: sum.splits option.splits prod.splits)

lemma result_single_only:
  "result a None single =
     (case route single of
        None \<Rightarrow> Inl (Failure 503 ''FailedToFindAPathToFundSwapOffchain'' None)
      | Some r \<Rightarrow>
          if js_gt (route.fee r) (max_fee a) then
            Inl (Failure 503 ''FailedToFindAPathToFundSwapOffchain'' None)
          else Inr \<lparr>routing_result.fee = route.fee r, routes = [r]\<rparr>)"
  by (simp add: result_def paths_def sumOf_def List.map_filter_def split: option.splits)

lemma result_cases:
  "result a multi single =
     (if paths multi single = [] \<or> js_gt (sum_list (map route.fee (paths multi single))) (max_fee a)
      then Inl (Failure 503 ''FailedToFindAPathToFundSwapOffchain'' None)
      else Inr \<lparr>routing_result.fee = sum_list (map route.fee (paths multi single)),
                routes = paths multi single\<rparr>)"
  by (simp add: result_def Let_def sumOf_sum_list)


text \<open>
  Nothing but the capability check reads the answer of the version query.
\<close>

lemma whilst_iteratee_version [simp]:
  "whilst_iteratee (net\<lparr>getWalletVersion := v\<rparr>) a s = whilst_iteratee net a s"
  by (simp add: whilst_iteratee_def)

lemma asyncWhilst_version [simp]:
  "asyncWhilst fuel (net\<lparr>getWalletVersion := v\<rparr>) a s = asyncWhilst fuel net a s"
  by (induction fuel arbitrary: s) (simp_all split: prod.splits option.splits)

lemma getMultiLimits_version [simp]:
  "getMultiLimits fuel (net\<lparr>getWalletVersion := v\<rparr>) a support =
     getMultiLimits fuel net a support"
  by (simp add: getMultiLimits_def)

lemma getMultiPaths_version [simp]:
  "getMultiPaths (net\<lparr>getWalletVersion := v\<rparr>) a limits = getMultiPaths net a limits"
  by (simp add: getMultiPaths_def Let_def split: option.splits sum.splits)

lemma getSinglePath_version [simp]:
  "getSinglePath (net\<lparr>getWalletVersion := v\<rparr>) a = getSinglePath net a"
  by (simp add: getSinglePath_def)

lemma run_by_support:
  "get_routes_for_funding fuel (net\<lparr>getWalletVersion := v\<rparr>) a =
     (case validate a of
        Some err \<Rightarrow> Some ([], Inl err)
      | None \<Rightarrow>
          (case getSinglePath net a of
             (c2, Inl err) \<Rightarrow> Some (GetWalletVersion # c2, Inl err)
           | (c2, Inr single) \<Rightarrow>
               (case getMultiLimits fuel net a \<lparr>is_multi_supported = (v = None)\<rparr> of
                  None \<Rightarrow> None
                | Some (c3, Inl err) \<Rightarrow> Some (GetWalletVersion # c2 @ c3, Inl err)
                | Some (c3, Inr limits) \<Rightarrow>
                    (case getMultiPaths net a limits of
                       (c4, Inl err) \<Rightarrow> Some (GetWalletVersion # c2 @ c3 @ c4, Inl err)
                     | (c4, Inr multi) \<Rightarrow>
                         Some (GetWalletVersion # c2 @ c3 @ c4, result a multi single)))))"
  by (simp add: get_routes_for_funding_def getMultiSupport_def
      split: option.splits prod.splits sum.splits)

section \<open>The loop of \<^verbatim>\<open>getMultiLimits\<close>\<close>

lemma path_cap_nonzero: "path_cap a \<noteq> 0"
  by (simp add: path_cap_def defaultMaxPaths_def split: option.splits)

text \<open>
  In every execution, whatever \<open>max_paths\<close> is, every answer of the prober but the last
  one logged was neither a hard error nor a soft failure.
\<close>

lemma asyncWhilst_clean_log:
  assumes "accumulation.error s = None \<longrightarrow> (\<forall>e\<in>set (log s). answered_cleanly e)"
    and "\<forall>e\<in>set (butlast (log s)). answered_cleanly e"
  shows "\<forall>e\<in>set (butlast (log (snd (asyncWhilst fuel net a s)))). answered_cleanly e"
  using assms
proof (induction fuel arbitrary: s)
  case 0
  then show ?case by simp
next
  case (Suc k)
  show ?case
  proof (cases "whilst_test a s")
    case False
    with Suc.prems show ?thesis by simp
  next
    case True
    then have quiet: "accumulation.error s = None"
      by (simp add: whilst_test_def split: if_splits)
    from quiet Suc.prems(1) have clean: "\<forall>e\<in>set (log s). answered_cleanly e"
      by simp
    show ?thesis
    proof (cases "multiPathProbe net (accumulation.probes s) (length (log s))")
      case (Inl err)
      then show ?thesis
        using True clean by (simp add: whilst_iteratee_def Let_def)
    next
      case (Inr res)
      define s' where "s' =
        \<lparr>accumulation.probes =
           (case probe res of
              Some p \<Rightarrow> accumulation.probes s @ [p]
            | None \<Rightarrow> accumulation.probes s),
         accumulation.error =
           (case probe_attempt.error res of
              Some e \<Rightarrow> Some e
            | None \<Rightarrow> accumulation.error s),
         log = log s @ [(length (accumulation.probes s), Inr res)]\<rparr>"
      have it: "whilst_iteratee net a s = (None, s')"
        using Inr by (simp add: whilst_iteratee_def Let_def s'_def)
      have l: "log s' = log s @ [(length (accumulation.probes s), Inr res)]"
        by (simp add: s'_def)
      have e: "accumulation.error s' = None \<longrightarrow> probe_attempt.error res = None"
        by (simp add: s'_def split: option.splits)
      have "\<forall>e\<in>set (butlast (log (snd (asyncWhilst k net a s')))). answered_cleanly e"
      proof (rule Suc.IH)
        show "accumulation.error s' = None \<longrightarrow> (\<forall>e\<in>set (log s'). answered_cleanly e)"
          using l e clean by (simp add: answered_cleanly_def)
        show "\<forall>e\<in>set (butlast (log s')). answered_cleanly e"
          using l clean by simp
      qed
      then show ?thesis
        using True it by simp
    qed
  qed
qed

text \<open>
  When the cap is a whole number \<open>c\<close>, the probes collected are at most \<open>c\<close> and every
  call of the prober was made with fewer than \<open>c\<close> probes.
\<close>

lemma asyncWhilst_bounds:
  assumes "path_cap a = of_nat c"
    and "length (accumulation.probes s) \<le> c"
    and "\<forall>e\<in>set (log s). fst e < c"
  shows "length (accumulation.probes (snd (asyncWhilst fuel net a s))) \<le> c \<and>
         (\<forall>e\<in>set (log (snd (asyncWhilst fuel net a s))). fst e < c)"
  using assms(2,3)
proof (induction fuel arbitrary: s)
  case 0
  then show ?case by simp
next
  case (Suc k)
  show ?case
  proof (cases "whilst_test a s")
    case False
    with Suc.prems show ?thesis by simp
  next
    case True
    then have "(of_nat c :: rat) \<noteq> of_nat (length (accumulation.probes s))"
      using assms(1) by (simp add: whilst_test_def split: if_splits)
    then have "c \<noteq> length (accumulation.probes s)"
      by auto
    with Suc.prems(1) have room: "length (accumulation.probes s) < c"
      by simp
    show ?thesis
    proof (cases "multiPathProbe net (accumulation.probes s) (length (log s))")
      case (Inl err)
      then show ?thesis
        using True room Suc.prems by (simp add: whilst_iteratee_def Let_def)
    next
      case (Inr res)
      define s' where "s' =
        \<lparr>accumulation.probes =
           (case probe res of
              Some p \<Rightarrow> accumulation.probes s @ [p]
            | None \<Rightarrow> accumulation.probes s),
         accumulation.error =
           (case probe_attempt.error res of
              Some e \<Rightarrow> Some e
            | None \<Rightarrow> accumulation.error s),
         log = log s @ [(length (accumulation.probes s), Inr res)]\<rparr>"
      have it: "whilst_iteratee net a s = (None, s')"
        using Inr by (simp add: whilst_iteratee_def Let_def s'_def)
      have "length (accumulation.probes (snd (asyncWhilst k net a s'))) \<le> c \<and>
         (\<forall>e\<in>set (log (snd (asyncWhilst k net a s'))). fst e < c)"
      proof (rule Suc.IH)
        show "length (accumulation.probes s') \<le> c"
          using room by (simp add: s'_def split: option.splits)
        show "\<forall>e\<in>set (log s'). fst e < c"
          using room Suc.prems(2) by (simp add: s'_def)
      qed
      then show ?thesis
        using True it by simp
    qed
  qed
qed

lemma accumulation_loop_bounded:
  "(path_cap a = of_nat c \<longrightarrow>
      length (accumulation.probes (snd (asyncWhilst fuel net a whilst_start))) \<le> c \<and>
      (\<forall>e\<in>set (log (snd (asyncWhilst fuel net a whilst_start))). fst e < c)) \<and>
   (\<forall>e\<in>set (butlast (log (snd (asyncWhilst fuel net a whilst_start)))).
      answered_cleanly e)"
proof -
  have clean: "\<forall>e\<in>set (butlast (log (snd (asyncWhilst fuel net a whilst_start)))).
      answered_cleanly e"
    by (rule asyncWhilst_clean_log) (simp_all add: whilst_start_def)
  have "length (accumulation.probes (snd (asyncWhilst fuel net a whilst_start))) \<le> c \<and>
      (\<forall>e\<in>set (log (snd (asyncWhilst fuel net a whilst_start))). fst e < c)"
    if "path_cap a = of_nat c"
    using that by (rule asyncWhilst_bounds) (simp_all add: whilst_start_def)
  with clean show ?thesis by blast
qed

lemma asyncWhilst_Ended_None:
  "asyncWhilst fuel net a s = (Ended None, s') \<Longrightarrow> \<not> whilst_test a s'"
proof (induction fuel arbitrary: s)
  case 0
  then show ?case by simp
next
  case (Suc k)
  then show ?case
    by (auto split: if_splits prod.splits option.splits)
qed

lemma asyncWhilst_last_reason:
  assumes "accumulation.error s = None \<or>
           (\<exists>n res. log s \<noteq> [] \<and> last (log s) = (n, Inr res) \<and>
              probe_attempt.error res = accumulation.error s)"
  shows "accumulation.error (snd (asyncWhilst fuel net a s)) = None \<or>
         (\<exists>n res. log (snd (asyncWhilst fuel net a s)) \<noteq> [] \<and>
            last (log (snd (asyncWhilst fuel net a s))) = (n, Inr res) \<and>
            probe_attempt.error res = accumulation.error (snd (asyncWhilst fuel net a s)))"
  using assms
proof (induction fuel arbitrary: s)
  case 0
  then show ?case by simp
next
  case (Suc k)
  show ?case
  proof (cases "whilst_test a s")
    case False
    with Suc.prems show ?thesis by simp
  next
    case True
    then have quiet: "accumulation.error s = None"
      by (simp add: whilst_test_def split: if_splits)
    show ?thesis
    proof (cases "multiPathProbe net (accumulation.probes s) (length (log s))")
      case (Inl err)
      then show ?thesis
        using True quiet by (simp add: whilst_iteratee_def Let_def)
    next
      case (Inr res)
      define s' where "s' =
        \<lparr>accumulation.probes =
           (case probe res of
              Some p \<Rightarrow> accumulation.probes s @ [p]
            | None \<Rightarrow> accumulation.probes s),
         accumulation.error =
           (case probe_attempt.error res of
              Some e \<Rightarrow> Some e
            | None \<Rightarrow> accumulation.error s),
         log = log s @ [(length (accumulation.probes s), Inr res)]\<rparr>"
      have it: "whilst_iteratee net a s = (None, s')"
        using Inr by (simp add: whilst_iteratee_def Let_def s'_def)
      have "accumulation.error s' = None \<or>
           (\<exists>n res. log s' \<noteq> [] \<and> last (log s') = (n, Inr res) \<and>
              probe_attempt.error res = accumulation.error s')"
        using quiet by (simp add: s'_def split: option.splits)
      from Suc.IH [OF this] show ?thesis
        using True it by simp
    qed
  qed
qed

lemma getMultiLimits_calls:
  assumes "getMultiLimits fuel net a support = Some (c3, r)"
  shows "\<exists>ns. c3 = map MultiPathProbe ns"
proof (cases "is_multi_supported support \<and> \<not> truthy_str (out_through a)")
  case False
  with assms have "c3 = map MultiPathProbe []"
    by (auto simp: getMultiLimits_def split: if_splits)
  then show ?thesis ..
next
  case True
  obtain st s where w: "asyncWhilst fuel net a whilst_start = (st, s)"
    by (cases "asyncWhilst fuel net a whilst_start")
  have probes: "map (\<lambda>(n, answer). MultiPathProbe n) xs = map MultiPathProbe (map fst xs)"
    for xs :: "(nat \<times> (failure + probe_attempt)) list"
    by (induction xs) auto
  from assms True w have "c3 = map MultiPathProbe (map fst (log s))"
    by (cases st) (simp_all add: getMultiLimits_def probes)
  then show ?thesis ..
qed

text \<open>
  The loop ends, and the task answers, when the cap is a whole number and every answer
  of the prober that is not a hard error carries a probe or a soft failure: one unit of
  fuel more than the cap is enough.
\<close>

lemma asyncWhilst_ends:
  assumes "\<forall>ps n res. multiPathProbe net ps n = Inr res \<longrightarrow>
             probe res \<noteq> None \<or> probe_attempt.error res \<noteq> None"
    and "path_cap a = of_nat c"
    and "length (accumulation.probes s) \<le> c"
    and "(if accumulation.error s = None then c - length (accumulation.probes s) else 0)
           < fuel"
  shows "fst (asyncWhilst fuel net a s) \<noteq> Running"
  using assms(3,4)
proof (induction fuel arbitrary: s)
  case 0
  then show ?case by simp
next
  case (Suc k)
  show ?case
  proof (cases "whilst_test a s")
    case False
    then show ?thesis by simp
  next
    case True
    then have quiet: "accumulation.error s = None"
      and "(of_nat c :: rat) \<noteq> of_nat (length (accumulation.probes s))"
      using assms(2) by (auto simp: whilst_test_def split: if_splits)
    then have room: "c \<noteq> length (accumulation.probes s)"
      by auto
    show ?thesis
    proof (cases "multiPathProbe net (accumulation.probes s) (length (log s))")
      case (Inl err)
      then show ?thesis
        using True by (simp add: whilst_iteratee_def Let_def)
    next
      case (Inr res)
      define s' where "s' =
        \<lparr>accumulation.probes =
           (case probe res of
              Some p \<Rightarrow> accumulation.probes s @ [p]
            | None \<Rightarrow> accumulation.probes s),
         accumulation.error =
           (case probe_attempt.error res of
              Some e \<Rightarrow> Some e
            | None \<Rightarrow> accumulation.error s),
         log = log s @ [(length (accumulation.probes s), Inr res)]\<rparr>"
      have it: "whilst_iteratee net a s = (None, s')"
        using Inr by (simp add: whilst_iteratee_def Let_def s'_def)
      from assms(1) Inr have "probe res \<noteq> None \<or> probe_attempt.error res \<noteq> None"
        by blast
      with quiet room Suc.prems
      have "length (accumulation.probes s') \<le> c"
        and "(if accumulation.error s' = None
             then c - length (accumulation.probes s') else 0) < k"
        by (auto simp: s'_def split: option.splits)
      from Suc.IH [OF this] show ?thesis
        using True it by simp
    qed
  qed
qed

lemma getMultiLimits_returns:
  assumes "\<forall>ps n res. multiPathProbe net ps n = Inr res \<longrightarrow>
             probe res \<noteq> None \<or> probe_attempt.error res \<noteq> None"
    and "path_cap a = of_nat c"
    and "c < fuel"
  shows "getMultiLimits fuel net a support \<noteq> None"
proof -
  have "length (accumulation.probes whilst_start) \<le> c"
    and "(if accumulation.error whilst_start = None
         then c - length (accumulation.probes whilst_start) else 0) < fuel"
    using assms(3) by (simp_all add: whilst_start_def)
  from asyncWhilst_ends [OF assms(1,2) this]
  show ?thesis
    by (cases "asyncWhilst fuel net a whilst_start")
      (auto simp: getMultiLimits_def split: whilst_status.splits)
qed

section \<open>The claims\<close>

subsection \<open>Validation\<close>

text \<open>
  What \<open>validate\<close> does reject: a request whose \<open>cltv_delta\<close>, \<open>destination\<close> or
  \<open>tokens\<close> is missing (or is the number \<^verbatim>\<open>0\<close> or the empty string, which \<^verbatim>\<open>!\<close>
  treats alike) fails with a failure of class 400 and makes no call at all, whatever the
  fuel and the network.
\<close>

lemma validate_rejects_missing_fields:
  assumes "cltv_delta a \<in> {None, Some 0} \<or> destination a \<in> {None, Some []} \<or>
           tokens a \<in> {None, Some 0}"
  shows "\<exists>reason. get_routes_for_funding fuel net a = Some ([], Inl (Failure 400 reason None))"
  using assms
  by (auto simp: get_routes_for_funding_def validate_def truthy_num_def truthy_str_def)

lemma validate_rejects_missing_destination:
  "get_routes_for_funding 5 net_a args_no_destination =
     Some ([], Inl (Failure 400 ''ExpectedDestinationToGetRoutesForFunding'' None))"
  by (simp add: get_routes_for_funding_def validate_def truthy_num_def truthy_str_def
      args_no_destination_def args_a_def)

text \<open>
  C1 does not hold of the code for the fee budget. \<open>validate\<close> has no test of
  \<open>max_fee\<close>, the one required number of the request it does not test: the request of
  the scenarios without \<open>max_fee\<close> passes validation, calls the wallet, the probe
  executor, the prober, the channels and the synthesizer, and resolves with the two
  routes. The guard of \<open>result\<close> is then off as well: the single route of fee 500 is
  returned although nothing allows that fee.
\<close>

theorem missing_max_fee_not_rejected:
  "max_fee args_no_budget = None \<and>
   validate args_no_budget = None \<and>
   get_routes_for_funding 5 net_a args_no_budget =
     Some ([GetWalletVersion, ExecuteProbe, MultiPathProbe 0, MultiPathProbe 1,
            MultiPathProbe 2, GetChannel ''700x2x0'', GetChannel ''700x3x1'', GetWalletInfo,
            MultiPathPayment],
           Inr \<lparr>routing_result.fee = 300, routes = [route_left, route_right]\<rparr>) \<and>
   get_routes_for_funding 5 net_unsupported args_no_budget =
     Some ([GetWalletVersion, ExecuteProbe],
           Inr \<lparr>routing_result.fee = 500, routes = [route_single]\<rparr>)"
  by (simp add: funding_defs example_defs args_no_budget_def net_unsupported_def
      eval_nat_numeral)

subsection \<open>The final selection\<close>

text \<open>
  C2, as the code has it. Whenever the value of \<^verbatim>\<open>getMultiPaths\<close> is a list of routes,
  empty or not, that list is the chosen set and the single path is not looked at: the
  result is made of that list alone, and it is the failure of class 503 and reason
  \<^verbatim>\<open>FailedToFindAPathToFundSwapOffchain\<close> when the list is empty, whatever the single
  path is. So it is for the whole request in which the multi-path branch ran and the
  synthesizer returned that list. The single path is chosen only when the value of
  \<^verbatim>\<open>getMultiPaths\<close> is \<^verbatim>\<open>undefined\<close>: the chosen set is then its route, if it has
  one, and when the fee of that route is not above \<open>max_fee\<close> the result is that route
  and its fee.
\<close>

theorem empty_multi_paths_fail:
  "result a (Some []) single = Inl (Failure 503 ''FailedToFindAPathToFundSwapOffchain'' None) \<and>
   paths (Some rs) single = rs \<and>
   result a (Some rs) single =
     (if rs = [] \<or> js_gt (sum_list (map route.fee rs)) (max_fee a) then
        Inl (Failure 503 ''FailedToFindAPathToFundSwapOffchain'' None)
      else Inr \<lparr>routing_result.fee = sum_list (map route.fee rs), routes = rs\<rparr>) \<and>
   (validate a = None \<and>
    executeProbe net a (map_option tokensAsMtokens (tokens a)) = Inr single \<and>
    getMultiLimits fuel net a \<lparr>is_multi_supported = (getWalletVersion net = None)\<rparr> =
      Some (c3, Inr limits) \<and>
    getMultiPaths net a limits = (c4, Inr (Some rs)) \<longrightarrow>
    get_routes_for_funding fuel net a =
      Some (GetWalletVersion # ExecuteProbe # c3 @ c4,
            if rs = [] \<or> js_gt (sum_list (map route.fee rs)) (max_fee a) then
              Inl (Failure 503 ''FailedToFindAPathToFundSwapOffchain'' None)
            else Inr \<lparr>routing_result.fee = sum_list (map route.fee rs), routes = rs\<rparr>)) \<and>
   paths None single = (case route single of None \<Rightarrow> [] | Some r \<Rightarrow> [r]) \<and>
   (route single = Some r \<and> \<not> js_gt (route.fee r) (max_fee a) \<longrightarrow>
    result a None single = Inr \<lparr>routing_result.fee = route.fee r, routes = [r]\<rparr>)"
proof -
  have chosen: "paths (Some rs) single = rs"
    by (simp add: paths_def)
  have fallback: "paths None single = (case route single of None \<Rightarrow> [] | Some r \<Rightarrow> [r])"
    by (simp add: paths_def List.map_filter_def split: option.splits)
  have multi: "result a (Some rs) single =
     (if rs = [] \<or> js_gt (sum_list (map route.fee rs)) (max_fee a) then
        Inl (Failure 503 ''FailedToFindAPathToFundSwapOffchain'' None)
      else Inr \<lparr>routing_result.fee = sum_list (map route.fee rs), routes = rs\<rparr>)"
    by (simp add: result_cases chosen)
  have empty: "result a (Some []) single =
      Inl (Failure 503 ''FailedToFindAPathToFundSwapOffchain'' None)"
    by (simp add: result_cases paths_def)
  have whole: "get_routes_for_funding fuel net a =
      Some (GetWalletVersion # ExecuteProbe # c3 @ c4,
            if rs = [] \<or> js_gt (sum_list (map route.fee rs)) (max_fee a) then
              Inl (Failure 503 ''FailedToFindAPathToFundSwapOffchain'' None)
            else Inr \<lparr>routing_result.fee = sum_list (map route.fee rs), routes = rs\<rparr>)"
    if "validate a = None"
      and "executeProbe net a (map_option tokensAsMtokens (tokens a)) = Inr single"
      and "getMultiLimits fuel net a \<lparr>is_multi_supported = (getWalletVersion net = None)\<rparr> =
        Some (c3, Inr limits)"
      and "getMultiPaths net a limits = (c4, Inr (Some rs))"
    using that by (simp add: run_validated multi)
  have single_only: "result a None single =
      Inr \<lparr>routing_result.fee = route.fee r, routes = [r]\<rparr>"
    if "route single = Some r" and "\<not> js_gt (route.fee r) (max_fee a)"
    using that by (simp add: result_single_only)
  from empty chosen multi whole fallback single_only show ?thesis
    by blast
qed

theorem empty_multi_paths_fail_witness:
  "get_routes_for_funding 5 net_no_synthesis args_a =
     Some ([GetWalletVersion, ExecuteProbe, MultiPathProbe 0, MultiPathProbe 1,
            MultiPathProbe 2, GetChannel ''700x2x0'', GetChannel ''700x3x1'', GetWalletInfo,
            MultiPathPayment],
           Inl (Failure 503 ''FailedToFindAPathToFundSwapOffchain'' None)) \<and>
   paths (Some [route_left, route_right]) \<lparr>route = Some route_single\<rparr> =
     [route_left, route_right] \<and>
   result args_a None \<lparr>route = Some route_single\<rparr> =
     Inr \<lparr>routing_result.fee = 500, routes = [route_single]\<rparr>"
proof -
  let ?single = "\<lparr>route = Some route_single\<rparr>"
  let ?limits = "Some \<lparr>multi_limits.latency_ms = 200,
      multi_limits.probes =
        [\<lparr>channels = [''700x2x0''], liquidity = 90000, probe_summary.relays = [''02bb'']\<rparr>,
         \<lparr>channels = [''700x3x1'', ''700x2x0''], liquidity = 60000,
          probe_summary.relays = [''02cc'', ''02bb'']\<rparr>],
      routes_max = 150000\<rparr>"
  let ?c3 = "[MultiPathProbe 0, MultiPathProbe 1, MultiPathProbe 2]"
  let ?c4 = "[GetChannel ''700x2x0'', GetChannel ''700x3x1'', GetWalletInfo, MultiPathPayment]"
  have v: "validate args_a = None"
    by (simp add: funding_defs example_defs)
  have e: "executeProbe net_no_synthesis args_a (map_option tokensAsMtokens (tokens args_a)) =
      Inr ?single"
    by (simp add: example_defs net_no_synthesis_def)
  have l: "getMultiLimits 5 net_no_synthesis args_a
      \<lparr>is_multi_supported = (getWalletVersion net_no_synthesis = None)\<rparr> =
      Some (?c3, Inr ?limits)"
    by (simp add: funding_defs example_defs net_no_synthesis_def eval_nat_numeral)
  have p: "getMultiPaths net_no_synthesis args_a ?limits = (?c4, Inr (Some []))"
    by (simp add: funding_defs example_defs net_no_synthesis_def)
  have r: "route ?single = Some route_single \<and>
      \<not> js_gt (route.fee route_single) (max_fee args_a)"
    by (simp add: js_gt_def example_defs)
  from empty_multi_paths_fail
    [of args_a ?single "[]" net_no_synthesis 5 ?c3 ?limits ?c4 route_single]
  have one: "get_routes_for_funding 5 net_no_synthesis args_a =
      Some (GetWalletVersion # ExecuteProbe # ?c3 @ ?c4,
            Inl (Failure 503 ''FailedToFindAPathToFundSwapOffchain'' None)) \<and>
    result args_a None ?single =
      Inr \<lparr>routing_result.fee = route.fee route_single, routes = [route_single]\<rparr>"
    using v e l p r by simp
  from empty_multi_paths_fail [of args_a ?single "[route_left, route_right]"]
  have two: "paths (Some [route_left, route_right]) ?single = [route_left, route_right]"
    by simp
  from one two show ?thesis
    by (simp add: route_single_def)
qed

text \<open>
  C2 as stated fails: the synthesizer returns no route, the single path has a route of
  fee 500 within the budget of 1000, and the request fails with class 503.
\<close>

theorem empty_multi_paths_counterexample:
  "getMultiPaths net_no_synthesis args_a
     (Some \<lparr>multi_limits.latency_ms = 200,
            multi_limits.probes =
              [\<lparr>channels = [''700x2x0''], liquidity = 90000,
                probe_summary.relays = [''02bb'']\<rparr>,
               \<lparr>channels = [''700x3x1'', ''700x2x0''], liquidity = 60000,
                probe_summary.relays = [''02cc'', ''02bb'']\<rparr>],
            routes_max = 150000\<rparr>) =
     ([GetChannel ''700x2x0'', GetChannel ''700x3x1'', GetWalletInfo, MultiPathPayment],
      Inr (Some [])) \<and>
   executeProbe net_no_synthesis args_a (Some 100000000) = Inr \<lparr>route = Some route_single\<rparr> \<and>
   route.fee route_single = 500 \<and> max_fee args_a = Some 1000 \<and>
   result args_a (Some []) \<lparr>route = Some route_single\<rparr> =
     Inl (Failure 503 ''FailedToFindAPathToFundSwapOffchain'' None) \<and>
   get_routes_for_funding 5 net_no_synthesis args_a =
     Some ([GetWalletVersion, ExecuteProbe, MultiPathProbe 0, MultiPathProbe 1,
            MultiPathProbe 2, GetChannel ''700x2x0'', GetChannel ''700x3x1'', GetWalletInfo,
            MultiPathPayment],
           Inl (Failure 503 ''FailedToFindAPathToFundSwapOffchain'' None))"
  by (simp add: funding_defs example_defs net_no_synthesis_def eval_nat_numeral)

subsection \<open>A failure of the probe executor\<close>

text \<open>
  C3, as the code has it. When a request passes validation and \<^verbatim>\<open>executeProbe\<close> calls
  back with an error, the request fails with class 503, reason
  \<^verbatim>\<open>UnexpectedErrorFindingRouteToFundSwap\<close> and that error as its payload, after the
  version query and the probe and no other call: the multi-path tasks are not started.
\<close>

theorem single_path_error_aborts:
  assumes "validate a = None"
    and "executeProbe net a (map_option tokensAsMtokens (tokens a)) = Inl err"
  shows "get_routes_for_funding fuel net a =
     Some ([GetWalletVersion, ExecuteProbe],
           Inl (Failure 503 ''UnexpectedErrorFindingRouteToFundSwap'' (Some err)))"
  using assms by (simp add: run_validated)

theorem single_path_error_aborts_witness:
  "validate args_a = None \<and>
   executeProbe net_probe_down args_a (map_option tokensAsMtokens (tokens args_a)) =
     Inl link_down \<and>
   get_routes_for_funding 5 net_probe_down args_a =
     Some ([GetWalletVersion, ExecuteProbe],
           Inl (Failure 503 ''UnexpectedErrorFindingRouteToFundSwap'' (Some link_down)))"
proof -
  have v: "validate args_a = None"
    by (simp add: funding_defs example_defs net_probe_down_def)
  have e: "executeProbe net_probe_down args_a (map_option tokensAsMtokens (tokens args_a)) =
      Inl link_down"
    by (simp add: example_defs net_probe_down_def)
  from single_path_error_aborts [OF v e] show ?thesis
    using v e by simp
qed

text \<open>
  C3 as stated fails: on a network that supports multi-path and whose prober would find
  a probe, a failing probe executor aborts the request and the prober is never called.
\<close>

theorem single_path_error_counterexample:
  "getWalletVersion net_probe_down = None \<and>
   multiPathProbe net_probe_down [] 0 =
     Inr \<lparr>probe = Some probe_left, probe_attempt.error = None\<rparr> \<and>
   get_routes_for_funding 5 net_probe_down args_a =
     Some ([GetWalletVersion, ExecuteProbe],
           Inl (Failure 503 ''UnexpectedErrorFindingRouteToFundSwap'' (Some link_down)))"
  by (simp add: funding_defs example_defs net_probe_down_def eval_nat_numeral)

subsection \<open>The fee budget\<close>



subsection \<open>The loop\<close>

text \<open>
  C5 does not hold of the code for every cap. The test of the loop compares the cap with
  the number of probes by \<^verbatim>\<open>===\<close>, which a cap that is not a whole number (or is
  negative) never meets: with \<open>max_paths\<close> 2.5 and a prober that finds four probes, the
  loop makes five calls and collects the four probes, and \<open>getMultiLimits\<close> succeeds with
  all four. The other half of the claim holds in every execution
  (\<open>asyncWhilst_clean_log\<close>), and so does the bound when the cap is a whole number
  (\<open>asyncWhilst_bounds\<close>).
\<close>

theorem fractional_cap_not_enforced:
  "max_paths args_fraction = Some (5 / 2) \<and>
   path_cap args_fraction = 5 / 2 \<and>
   fst (asyncWhilst 9 net_many args_fraction whilst_start) = Ended None \<and>
   accumulation.probes (snd (asyncWhilst 9 net_many args_fraction whilst_start)) =
     [probe_left, probe_right, probe_left, probe_right] \<and>
   map fst (log (snd (asyncWhilst 9 net_many args_fraction whilst_start))) = [0, 1, 2, 3, 4] \<and>
   map_option fst (getMultiLimits 9 net_many args_fraction \<lparr>is_multi_supported = True\<rparr>) =
     Some [MultiPathProbe 0, MultiPathProbe 1, MultiPathProbe 2, MultiPathProbe 3,
           MultiPathProbe 4]"
  by (simp add: funding_defs example_defs args_fraction_def net_many_def Let_def
      eval_nat_numeral)

text \<open>
  C6, as the code has it. When the loop has ended: if a hard error ended it, the task
  fails with that error, whatever probes were collected; if not and no probe was
  collected, a soft failure was recorded, it is the one of the last answer of the
  prober, and the task fails with it; if not and a probe was collected, the task
  succeeds with the sum of the latencies as \<open>latency_ms\<close>, the sum of the
  \<open>route_maximum\<close> as \<open>routes_max\<close>, and one summary (\<open>channels\<close>, \<open>liquidity\<close>,
  \<open>relays\<close>) for each probe, in order. With the gate open that is the value of
  \<open>getMultiLimits\<close>, whose calls are those of the log.
\<close>

theorem accumulator_outcome:
  assumes "asyncWhilst fuel net a whilst_start = (Ended err, s)"
  shows "(\<forall>e. err = Some e \<longrightarrow> whilst_done err s = Inl e) \<and>
         (err = None \<and> accumulation.probes s = [] \<longrightarrow>
            (\<exists>e n res. accumulation.error s = Some e \<and> last (log s) = (n, Inr res) \<and>
               probe_attempt.error res = Some e \<and> whilst_done err s = Inl e)) \<and>
         (err = None \<and> accumulation.probes s \<noteq> [] \<longrightarrow>
            whilst_done err s =
              Inr (Some
                \<lparr>multi_limits.latency_ms = sum_list (map probe.latency_ms (accumulation.probes s)),
                 multi_limits.probes =
                   map (\<lambda>p. \<lparr>channels = success p, liquidity = route_maximum p,
                              probe_summary.relays = probe.relays p\<rparr>)
                     (accumulation.probes s),
                 routes_max = sum_list (map route_maximum (accumulation.probes s))\<rparr>)) \<and>
         (is_multi_supported support \<and> \<not> truthy_str (out_through a) \<longrightarrow>
            getMultiLimits fuel net a support =
              Some (map (\<lambda>(n, answer). MultiPathProbe n) (log s), whilst_done err s))"
proof -
  have hard: "\<forall>e. err = Some e \<longrightarrow> whilst_done err s = Inl e"
    by (simp add: whilst_done_def)
  have none: "\<exists>e n res. accumulation.error s = Some e \<and> last (log s) = (n, Inr res) \<and>
      probe_attempt.error res = Some e \<and> whilst_done err s = Inl e"
    if "err = None" and "accumulation.probes s = []"
  proof -
    from assms that have "\<not> whilst_test a s"
      using asyncWhilst_Ended_None by blast
    with that path_cap_nonzero [of a] obtain e where e: "accumulation.error s = Some e"
      by (auto simp: whilst_test_def split: if_splits)
    have "accumulation.error whilst_start = None \<or>
        (\<exists>n res. log whilst_start \<noteq> [] \<and> last (log whilst_start) = (n, Inr res) \<and>
           probe_attempt.error res = accumulation.error whilst_start)"
      by (simp add: whilst_start_def)
    from asyncWhilst_last_reason [OF this, of fuel net a] assms e
    obtain n res where "last (log s) = (n, Inr res)" "probe_attempt.error res = Some e"
      by auto
    with e that show ?thesis
      by (simp add: whilst_done_def)
  qed
  have some: "whilst_done err s =
      Inr (Some
        \<lparr>multi_limits.latency_ms = sum_list (map probe.latency_ms (accumulation.probes s)),
         multi_limits.probes =
           map (\<lambda>p. \<lparr>channels = success p, liquidity = route_maximum p,
                      probe_summary.relays = probe.relays p\<rparr>)
             (accumulation.probes s),
         routes_max = sum_list (map route_maximum (accumulation.probes s))\<rparr>)"
    if "err = None" and "accumulation.probes s \<noteq> []"
    using that by (simp add: whilst_done_def foldl_plus_sum_list)
  have gate: "getMultiLimits fuel net a support =
      Some (map (\<lambda>(n, answer). MultiPathProbe n) (log s), whilst_done err s)"
    if "is_multi_supported support" and "\<not> truthy_str (out_through a)"
    using that assms by (simp add: getMultiLimits_def)
  from hard none some gate show ?thesis by blast
qed

theorem accumulator_outcome_witness:
  "getMultiLimits 5 net_second_down args_a \<lparr>is_multi_supported = True\<rparr> =
     Some ([MultiPathProbe 0, MultiPathProbe 1], Inl link_down) \<and>
   getMultiLimits 5 net_no_path args_a \<lparr>is_multi_supported = True\<rparr> =
     Some ([MultiPathProbe 0], Inl no_more_paths) \<and>
   getMultiLimits 5 net_a args_a \<lparr>is_multi_supported = True\<rparr> =
     Some ([MultiPathProbe 0, MultiPathProbe 1, MultiPathProbe 2],
           Inr (Some
             \<lparr>multi_limits.latency_ms = 200,
              multi_limits.probes =
                [\<lparr>channels = [''700x2x0''], liquidity = 90000,
                  probe_summary.relays = [''02bb'']\<rparr>,
                 \<lparr>channels = [''700x3x1'', ''700x2x0''], liquidity = 60000,
                  probe_summary.relays = [''02cc'', ''02bb'']\<rparr>],
              routes_max = 150000\<rparr>))"
proof -
  let ?left = "Inr \<lparr>probe = Some probe_left, probe_attempt.error = None\<rparr>"
  let ?right = "Inr \<lparr>probe = Some probe_right, probe_attempt.error = None\<rparr>"
  let ?stop = "Inr \<lparr>probe = None, probe_attempt.error = Some no_more_paths\<rparr>"
  let ?support = "\<lparr>is_multi_supported = True\<rparr>"
  have open_gate: "is_multi_supported ?support \<and> \<not> truthy_str (out_through args_a)"
    by (simp add: truthy_str_def example_defs net_second_down_def net_no_path_def)
  have down: "asyncWhilst 5 net_second_down args_a whilst_start =
      (Ended (Some link_down),
       \<lparr>accumulation.probes = [probe_left], accumulation.error = None,
        log = [(0, ?left), (1, Inl link_down)]\<rparr>)"
    by (simp add: funding_defs example_defs net_second_down_def net_no_path_def eval_nat_numeral)
  have none_found: "asyncWhilst 5 net_no_path args_a whilst_start =
      (Ended None,
       \<lparr>accumulation.probes = [], accumulation.error = Some no_more_paths,
        log = [(0, ?stop)]\<rparr>)"
    by (simp add: funding_defs example_defs net_second_down_def net_no_path_def eval_nat_numeral)
  have two: "asyncWhilst 5 net_a args_a whilst_start =
      (Ended None,
       \<lparr>accumulation.probes = [probe_left, probe_right],
        accumulation.error = Some no_more_paths,
        log = [(0, ?left), (1, ?right), (2, ?stop)]\<rparr>)"
    by (simp add: funding_defs example_defs net_second_down_def net_no_path_def eval_nat_numeral)
  from accumulator_outcome [OF down, where support = "?support"] open_gate
  have first: "getMultiLimits 5 net_second_down args_a ?support =
      Some ([MultiPathProbe 0, MultiPathProbe 1], Inl link_down)"
    by simp
  from accumulator_outcome [OF none_found, where support = "?support"] open_gate
  have second: "getMultiLimits 5 net_no_path args_a ?support =
      Some ([MultiPathProbe 0], Inl no_more_paths)"
    by simp
  from accumulator_outcome [OF two, where support = "?support"] open_gate
  have third: "getMultiLimits 5 net_a args_a ?support =
      Some ([MultiPathProbe 0, MultiPathProbe 1, MultiPathProbe 2],
           Inr (Some
             \<lparr>multi_limits.latency_ms = 200,
              multi_limits.probes =
                [\<lparr>channels = [''700x2x0''], liquidity = 90000,
                  probe_summary.relays = [''02bb'']\<rparr>,
                 \<lparr>channels = [''700x3x1'', ''700x2x0''], liquidity = 60000,
                  probe_summary.relays = [''02cc'', ''02bb'']\<rparr>],
              routes_max = 150000\<rparr>))"
    by (simp add: example_defs net_second_down_def net_no_path_def)
  from first second third show ?thesis by simp
qed

text \<open>
  C6 as stated fails: the prober answers a probe and then fails; the loop ends with one
  probe collected, and the task, and the request with it, fails with the hard error.
\<close>

theorem accumulator_outcome_counterexample:
  "asyncWhilst 5 net_second_down args_a whilst_start =
     (Ended (Some link_down),
      \<lparr>accumulation.probes = [probe_left], accumulation.error = None,
       log = [(0, Inr \<lparr>probe = Some probe_left, probe_attempt.error = None\<rparr>),
              (1, Inl link_down)]\<rparr>) \<and>
   getMultiLimits 5 net_second_down args_a \<lparr>is_multi_supported = True\<rparr> =
     Some ([MultiPathProbe 0, MultiPathProbe 1], Inl link_down) \<and>
   get_routes_for_funding 5 net_second_down args_a =
     Some ([GetWalletVersion, ExecuteProbe, MultiPathProbe 0, MultiPathProbe 1],
           Inl link_down)"
  by (simp add: funding_defs example_defs net_second_down_def eval_nat_numeral)

subsection \<open>Falling back to the single path\<close>

text \<open>
  C7, as the code has it. When the request passes validation, the probe executor has
  answered, and \<open>getMultiLimits\<close> has succeeded with a \<open>routes_max\<close> below \<open>tokens\<close>,
  \<open>getMultiPaths\<close> makes no call and yields nothing, the calls of the request are the
  version query, the single probe and the calls of the prober, and the request settles
  as the selection from the single path alone does: with the route of the single path
  and its fee when the route is there and the fee is not above \<open>max_fee\<close>, with the
  failure of class 503 otherwise.
\<close>

theorem insufficient_capacity_single_path:
  assumes "validate a = None"
    and "executeProbe net a (map_option tokensAsMtokens (tokens a)) = Inr single"
    and "getMultiLimits fuel net a \<lparr>is_multi_supported = (getWalletVersion net = None)\<rparr> =
           Some (c3, Inr (Some limits))"
    and "tokens a = Some t" and "routes_max limits < t"
  shows "getMultiPaths net a (Some limits) = ([], Inr None) \<and>
         (\<exists>ns. c3 = map MultiPathProbe ns) \<and>
         get_routes_for_funding fuel net a =
           Some (GetWalletVersion # ExecuteProbe # c3,
                 case route single of
                   None \<Rightarrow> Inl (Failure 503 ''FailedToFindAPathToFundSwapOffchain'' None)
                 | Some r \<Rightarrow>
                     if js_gt (route.fee r) (max_fee a) then
                       Inl (Failure 503 ''FailedToFindAPathToFundSwapOffchain'' None)
                     else Inr \<lparr>routing_result.fee = route.fee r, routes = [r]\<rparr>)"
proof -
  have nothing_more: "getMultiPaths net a (Some limits) = ([], Inr None)"
    using assms(4,5) by (simp add: getMultiPaths_def js_lt_def)
  from assms(3) have probes_only: "\<exists>ns. c3 = map MultiPathProbe ns"
    by (rule getMultiLimits_calls)
  have "get_routes_for_funding fuel net a =
      Some (GetWalletVersion # ExecuteProbe # c3, result a None single)"
    using assms(1,2,3) nothing_more by (simp add: run_validated)
  with nothing_more probes_only show ?thesis
    by (simp add: result_single_only)
qed

theorem insufficient_capacity_single_path_witness:
  "getMultiPaths net_a args_large
     (Some \<lparr>multi_limits.latency_ms = 200,
            multi_limits.probes =
              [\<lparr>channels = [''700x2x0''], liquidity = 90000,
                probe_summary.relays = [''02bb'']\<rparr>,
               \<lparr>channels = [''700x3x1'', ''700x2x0''], liquidity = 60000,
                probe_summary.relays = [''02cc'', ''02bb'']\<rparr>],
            routes_max = 150000\<rparr>) = ([], Inr None) \<and>
   get_routes_for_funding 5 net_a args_large =
     Some ([GetWalletVersion, ExecuteProbe, MultiPathProbe 0, MultiPathProbe 1,
            MultiPathProbe 2],
           Inr \<lparr>routing_result.fee = 500, routes = [route_single]\<rparr>)"
proof -
  let ?limits = "\<lparr>multi_limits.latency_ms = 200,
      multi_limits.probes =
        [\<lparr>channels = [''700x2x0''], liquidity = 90000, probe_summary.relays = [''02bb'']\<rparr>,
         \<lparr>channels = [''700x3x1'', ''700x2x0''], liquidity = 60000,
          probe_summary.relays = [''02cc'', ''02bb'']\<rparr>],
      routes_max = 150000\<rparr>"
  have v: "validate args_large = None"
    by (simp add: funding_defs example_defs args_large_def)
  have e: "executeProbe net_a args_large (map_option tokensAsMtokens (tokens args_large)) =
      Inr \<lparr>route = Some route_single\<rparr>"
    by (simp add: example_defs args_large_def)
  have l: "getMultiLimits 5 net_a args_large \<lparr>is_multi_supported = (getWalletVersion net_a = None)\<rparr> =
      Some ([MultiPathProbe 0, MultiPathProbe 1, MultiPathProbe 2], Inr (Some ?limits))"
    by (simp add: funding_defs example_defs args_large_def eval_nat_numeral)
  have t: "tokens args_large = Some 200000"
    by (simp add: example_defs args_large_def)
  have m: "routes_max ?limits < 200000"
    by simp
  from insufficient_capacity_single_path [OF v e l t m] show ?thesis
    by (simp add: js_gt_def example_defs args_large_def)
qed

text \<open>
  C7 as stated fails when the single path is above the budget: 150000 tokens of
  capacity for a request of 200000, a single route of fee 500 and a budget of 100 give
  the failure of class 503, not the single route.
\<close>

theorem insufficient_capacity_counterexample:
  "executeProbe net_a args_large_tight (Some 200000000) = Inr \<lparr>route = Some route_single\<rparr> \<and>
   getMultiLimits 5 net_a args_large_tight \<lparr>is_multi_supported = True\<rparr> =
     Some ([MultiPathProbe 0, MultiPathProbe 1, MultiPathProbe 2],
           Inr (Some
             \<lparr>multi_limits.latency_ms = 200,
              multi_limits.probes =
                [\<lparr>channels = [''700x2x0''], liquidity = 90000,
                  probe_summary.relays = [''02bb'']\<rparr>,
                 \<lparr>channels = [''700x3x1'', ''700x2x0''], liquidity = 60000,
                  probe_summary.relays = [''02cc'', ''02bb'']\<rparr>],
              routes_max = 150000\<rparr>)) \<and>
   tokens args_large_tight = Some 200000 \<and>
   get_routes_for_funding 5 net_a args_large_tight =
     Some ([GetWalletVersion, ExecuteProbe, MultiPathProbe 0, MultiPathProbe 1,
            MultiPathProbe 2],
           Inl (Failure 503 ''FailedToFindAPathToFundSwapOffchain'' None))"
  by (simp add: funding_defs example_defs args_large_tight_def eval_nat_numeral)

text \<open>
  C8, as the code has it. When the version query has failed or \<open>out_through\<close> is set,
  \<open>getMultiLimits\<close> makes no call and yields nothing, not a failure; and when the
  request passes validation and the probe executor has answered, the only calls are the
  version query and the single probe, and the request resolves with the route of the
  single path and its fee when the route is there and the fee is not above \<open>max_fee\<close>,
  and fails with class 503 otherwise.
\<close>

theorem skipped_accumulator_single_path:
  assumes "getWalletVersion net \<noteq> None \<or> truthy_str (out_through a)"
  shows "getMultiLimits fuel net a \<lparr>is_multi_supported = (getWalletVersion net = None)\<rparr> =
           Some ([], Inr None) \<and>
         (validate a = None \<and>
          executeProbe net a (map_option tokensAsMtokens (tokens a)) = Inr single \<longrightarrow>
          get_routes_for_funding fuel net a =
            Some ([GetWalletVersion, ExecuteProbe],
                  case route single of
                    None \<Rightarrow> Inl (Failure 503 ''FailedToFindAPathToFundSwapOffchain'' None)
                  | Some r \<Rightarrow>
                      if js_gt (route.fee r) (max_fee a) then
                        Inl (Failure 503 ''FailedToFindAPathToFundSwapOffchain'' None)
                      else Inr \<lparr>routing_result.fee = route.fee r, routes = [r]\<rparr>))"
proof -
  have skipped: "getMultiLimits fuel net a \<lparr>is_multi_supported = (getWalletVersion net = None)\<rparr> =
      Some ([], Inr None)"
    using assms by (auto simp: getMultiLimits_def)
  have "getMultiPaths net a None = ([], Inr None)"
    by (simp add: getMultiPaths_def)
  with skipped show ?thesis
    by (simp add: run_validated result_single_only)
qed

theorem skipped_accumulator_single_path_witness:
  "get_routes_for_funding 5 net_unsupported args_a =
     Some ([GetWalletVersion, ExecuteProbe],
           Inr \<lparr>routing_result.fee = 500, routes = [route_single]\<rparr>) \<and>
   get_routes_for_funding 5 net_a args_pinned =
     Some ([GetWalletVersion, ExecuteProbe],
           Inr \<lparr>routing_result.fee = 500, routes = [route_single]\<rparr>)"
proof -
  let ?single = "\<lparr>route = Some route_single\<rparr>"
  have g1: "getWalletVersion net_unsupported \<noteq> None \<or> truthy_str (out_through args_a)"
    by (simp add: example_defs args_pinned_def net_unsupported_def)
  have g2: "getWalletVersion net_a \<noteq> None \<or> truthy_str (out_through args_pinned)"
    by (simp add: truthy_str_def example_defs args_pinned_def net_unsupported_def)
  have v: "validate args_a = None" "validate args_pinned = None"
    by (simp_all add: funding_defs example_defs args_pinned_def net_unsupported_def)
  have e: "executeProbe net_unsupported args_a (map_option tokensAsMtokens (tokens args_a)) =
        Inr ?single"
      "executeProbe net_a args_pinned (map_option tokensAsMtokens (tokens args_pinned)) =
        Inr ?single"
    by (simp_all add: example_defs args_pinned_def net_unsupported_def)
  from skipped_accumulator_single_path [OF g1, of 5 ?single] v e
  have one: "get_routes_for_funding 5 net_unsupported args_a =
     Some ([GetWalletVersion, ExecuteProbe],
           Inr \<lparr>routing_result.fee = 500, routes = [route_single]\<rparr>)"
    by (simp add: js_gt_def example_defs args_pinned_def net_unsupported_def)
  from skipped_accumulator_single_path [OF g2, of 5 ?single] v e
  have two: "get_routes_for_funding 5 net_a args_pinned =
     Some ([GetWalletVersion, ExecuteProbe],
           Inr \<lparr>routing_result.fee = 500, routes = [route_single]\<rparr>)"
    by (simp add: js_gt_def example_defs args_pinned_def net_unsupported_def)
  from one two show ?thesis by simp
qed

text \<open>
  C8 as stated fails when the single path is above the budget: multi-path is not
  supported, the single probe succeeds with a route of fee 500, the budget is 100, and
  the request fails with class 503.
\<close>

theorem skipped_accumulator_counterexample:
  "getWalletVersion net_unsupported = Some (Failure 501 ''VersionMethodUnsupported'' None) \<and>
   executeProbe net_unsupported args_tight (Some 100000000) = Inr \<lparr>route = Some route_single\<rparr> \<and>
   route.fee route_single = 500 \<and> max_fee args_tight = Some 100 \<and>
   get_routes_for_funding 5 net_unsupported args_tight =
     Some ([GetWalletVersion, ExecuteProbe],
           Inl (Failure 503 ''FailedToFindAPathToFundSwapOffchain'' None))"
  by (simp add: funding_defs example_defs args_tight_def net_unsupported_def eval_nat_numeral)

subsection \<open>The capability check\<close>

text \<open>
  C9. \<open>getMultiSupport\<close> makes the version query and never fails: its value is
  \<open>is_multi_supported\<close>, true exactly when the query succeeded. A request whose query
  failed settles as its single path alone decides, and the failure of the query is no
  part of the outcome. The outcome of a request depends on the answer of the query only
  through that boolean, and not at all when \<open>out_through\<close> closes the gate of
  \<open>getMultiLimits\<close> anyway.
\<close>

theorem capability_check_only_gates:
  "getMultiSupport net a =
     ([GetWalletVersion], Inr \<lparr>is_multi_supported = (getWalletVersion net = None)\<rparr>) \<and>
   (getWalletVersion net \<noteq> None \<and> validate a = None \<longrightarrow>
    get_routes_for_funding fuel net a =
      Some (GetWalletVersion # fst (getSinglePath net a),
            case snd (getSinglePath net a) of
              Inl err \<Rightarrow> Inl err
            | Inr single \<Rightarrow> result a None single)) \<and>
   ((v = None) = (v' = None) \<longrightarrow>
    get_routes_for_funding fuel (net\<lparr>getWalletVersion := v\<rparr>) a =
      get_routes_for_funding fuel (net\<lparr>getWalletVersion := v'\<rparr>) a) \<and>
   (truthy_str (out_through a) \<longrightarrow>
    get_routes_for_funding fuel (net\<lparr>getWalletVersion := v\<rparr>) a =
      get_routes_for_funding fuel (net\<lparr>getWalletVersion := v'\<rparr>) a)"
proof -
  have answer: "getMultiSupport net a =
      ([GetWalletVersion], Inr \<lparr>is_multi_supported = (getWalletVersion net = None)\<rparr>)"
    by (simp add: getMultiSupport_def)
  have closed: "getMultiLimits fuel net a \<lparr>is_multi_supported = False\<rparr> = Some ([], Inr None)"
    by (simp add: getMultiLimits_def)
  have none: "getMultiPaths net a None = ([], Inr None)"
    by (simp add: getMultiPaths_def)
  have unsupported: "get_routes_for_funding fuel net a =
      Some (GetWalletVersion # fst (getSinglePath net a),
            case snd (getSinglePath net a) of
              Inl err \<Rightarrow> Inl err
            | Inr single \<Rightarrow> result a None single)"
    if "getWalletVersion net \<noteq> None" and "validate a = None"
  proof -
    from that have off: "(getWalletVersion net = None) = False"
      by simp
    have "get_routes_for_funding fuel (net\<lparr>getWalletVersion := getWalletVersion net\<rparr>) a =
      Some (GetWalletVersion # fst (getSinglePath net a),
            case snd (getSinglePath net a) of
              Inl err \<Rightarrow> Inl err
            | Inr single \<Rightarrow> result a None single)"
      unfolding run_by_support off using that(2) closed none
      by (simp split: prod.splits sum.splits)
    then show ?thesis by simp
  qed
  have boolean: "get_routes_for_funding fuel (net\<lparr>getWalletVersion := v\<rparr>) a =
      get_routes_for_funding fuel (net\<lparr>getWalletVersion := v'\<rparr>) a"
    if "(v = None) = (v' = None)"
    unfolding run_by_support that by (rule refl)
  have pinned: "get_routes_for_funding fuel (net\<lparr>getWalletVersion := v\<rparr>) a =
      get_routes_for_funding fuel (net\<lparr>getWalletVersion := v'\<rparr>) a"
    if "truthy_str (out_through a)"
  proof -
    have skip: "getMultiLimits fuel net a \<lparr>is_multi_supported = b\<rparr> = Some ([], Inr None)"
      for b
      using that by (simp add: getMultiLimits_def)
    show ?thesis
      unfolding run_by_support skip by (rule refl)
  qed
  from answer unsupported boolean pinned show ?thesis by blast
qed

theorem capability_check_only_gates_witness:
  "getMultiSupport net_unsupported args_a = ([GetWalletVersion], Inr \<lparr>is_multi_supported = False\<rparr>) \<and>
   getMultiSupport net_a args_a = ([GetWalletVersion], Inr \<lparr>is_multi_supported = True\<rparr>) \<and>
   get_routes_for_funding 5 net_unsupported args_a =
     Some ([GetWalletVersion, ExecuteProbe],
           Inr \<lparr>routing_result.fee = 500, routes = [route_single]\<rparr>) \<and>
   get_routes_for_funding 5 (net_a\<lparr>getWalletVersion := Some link_down\<rparr>) args_a =
     get_routes_for_funding 5 net_unsupported args_a \<and>
   get_routes_for_funding 5 (net_a\<lparr>getWalletVersion := Some link_down\<rparr>) args_pinned =
     get_routes_for_funding 5 (net_a\<lparr>getWalletVersion := None\<rparr>) args_pinned"
proof -
  let ?down = "Some (Failure 501 ''VersionMethodUnsupported'' None)"
  have w: "getWalletVersion net_unsupported = ?down" "getWalletVersion net_a = None"
    by (simp_all add: example_defs args_pinned_def net_unsupported_def)
  have v: "validate args_a = None"
    by (simp add: funding_defs example_defs args_pinned_def net_unsupported_def)
  have s: "getSinglePath net_unsupported args_a = ([ExecuteProbe], Inr \<lparr>route = Some route_single\<rparr>)"
    by (simp add: getSinglePath_def example_defs args_pinned_def net_unsupported_def)
  have r: "result args_a None \<lparr>route = Some route_single\<rparr> =
      Inr \<lparr>routing_result.fee = 500, routes = [route_single]\<rparr>"
    by (simp add: funding_defs example_defs args_pinned_def net_unsupported_def)
  have u: "net_unsupported = net_a\<lparr>getWalletVersion := ?down\<rparr>"
    by (simp add: net_unsupported_def)
  have p: "truthy_str (out_through args_pinned)"
    by (simp add: truthy_str_def example_defs args_pinned_def net_unsupported_def)
  from capability_check_only_gates [of net_unsupported args_a 5] w v s r
  have one: "getMultiSupport net_unsupported args_a =
      ([GetWalletVersion], Inr \<lparr>is_multi_supported = False\<rparr>) \<and>
    get_routes_for_funding 5 net_unsupported args_a =
      Some ([GetWalletVersion, ExecuteProbe],
            Inr \<lparr>routing_result.fee = 500, routes = [route_single]\<rparr>)"
    by simp
  from capability_check_only_gates [of net_a args_a 5 "Some link_down" ?down] w u
  have two: "getMultiSupport net_a args_a = ([GetWalletVersion], Inr \<lparr>is_multi_supported = True\<rparr>) \<and>
    get_routes_for_funding 5 (net_a\<lparr>getWalletVersion := Some link_down\<rparr>) args_a =
      get_routes_for_funding 5 net_unsupported args_a"
    by simp
  from capability_check_only_gates [of net_a args_pinned 5 "Some link_down" None] p
  have three: "get_routes_for_funding 5 (net_a\<lparr>getWalletVersion := Some link_down\<rparr>) args_pinned =
     get_routes_for_funding 5 (net_a\<lparr>getWalletVersion := None\<rparr>) args_pinned"
    by simp
  from one two three show ?thesis by simp
qed

subsection \<open>The channel balance of \<^verbatim>\<open>get_balance\<close>\<close>

lemma futureCommitFees_sum_list:
  "futureCommitFees chans =
     sum_list (map commit_transaction_fee (filter (\<lambda>n. is_partner_initiated n = Some False) chans))"
proof -
  have "foldl (\<lambda>sum n. sum + commit_transaction_fee n) acc xs =
      acc + sum_list (map commit_transaction_fee xs)" for acc and xs :: "channel_info list"
    by (induction xs arbitrary: acc) simp_all
  then show ?thesis by (simp add: futureCommitFees_def)
qed

lemma get_balance_Inr:
  "get_balance bft nd a = Inr r \<longleftrightarrow>
     balance_args.lnd a \<noteq> None \<and>
     (\<exists>chain funds chans pending.
        getChainBalance nd = Inr chain \<and> getChannelBalance nd = Inr funds \<and>
        getChannels nd = Inr chans \<and> getPendingChainBalance nd = Inr pending \<and>
        r = balance_task bft a chain funds chans pending)"
  by (auto simp: get_balance_def validate_balance_def split: sum.splits)

lemma balance_task_channel_balance:
  "balance_result.channel_balance (balance_task bft a chain funds chans pending) =
     channel_funds.channel_balance funds - futureCommitFees chans"
  by (simp add: balance_task_def Let_def)

text \<open>
  C10. Whenever \<open>get_balance\<close> succeeds, the node has answered the channel balance
  and the channels, and the \<open>channel_balance\<close> returned is the node's channel balance
  minus the sum of \<open>commit_transaction_fee\<close> over exactly the channels whose
  \<open>is_partner_initiated\<close> is \<^verbatim>\<open>false\<close> (neither \<^verbatim>\<open>true\<close> nor missing). The call
  with any other \<open>above\<close>, \<open>below\<close>, \<open>is_confirmed\<close>, \<open>is_offchain_only\<close> and
  \<open>is_onchain_only\<close> succeeds as well and returns the same \<open>channel_balance\<close>.
\<close>

theorem get_balance_channel_balance:
  assumes "get_balance bft nd a = Inr r"
  shows "\<exists>funds chans.
           getChannelBalance nd = Inr funds \<and> getChannels nd = Inr chans \<and>
           balance_result.channel_balance r =
             channel_funds.channel_balance funds -
             sum_list (map commit_transaction_fee
               (filter (\<lambda>n. is_partner_initiated n = Some False) chans)) \<and>
           (\<forall>ab be c off on. \<exists>r'.
              get_balance bft nd
                (a\<lparr>above := ab, below := be, is_confirmed := c, is_offchain_only := off,
                   is_onchain_only := on\<rparr>) = Inr r' \<and>
              balance_result.channel_balance r' = balance_result.channel_balance r)"
proof -
  from assms obtain chain funds chans pending where
    l: "balance_args.lnd a \<noteq> None" and
    q: "getChainBalance nd = Inr chain" "getChannelBalance nd = Inr funds"
       "getChannels nd = Inr chans" "getPendingChainBalance nd = Inr pending" and
    r: "r = balance_task bft a chain funds chans pending"
    unfolding get_balance_Inr by blast
  have cb: "balance_result.channel_balance r =
      channel_funds.channel_balance funds -
      sum_list (map commit_transaction_fee
        (filter (\<lambda>n. is_partner_initiated n = Some False) chans))"
    by (simp add: r balance_task_channel_balance futureCommitFees_sum_list)
  have "\<exists>r'. get_balance bft nd a' = Inr r' \<and>
          balance_result.channel_balance r' = balance_result.channel_balance r"
    if "balance_args.lnd a' = balance_args.lnd a" for a'
  proof -
    have "get_balance bft nd a' = Inr (balance_task bft a' chain funds chans pending)"
      using l q that unfolding get_balance_Inr by auto
    then show ?thesis
      by (simp add: r balance_task_channel_balance)
  qed
  then have "\<forall>ab be c off on. \<exists>r'.
      get_balance bft nd
        (a\<lparr>above := ab, below := be, is_confirmed := c, is_offchain_only := off,
           is_onchain_only := on\<rparr>) = Inr r' \<and>
      balance_result.channel_balance r' = balance_result.channel_balance r"
    by simp
  with q cb show ?thesis by blast
qed

theorem get_balance_channel_balance_witness:
  "get_balance sum_tokens node_a balance_args_a =
     Inr \<lparr>balance = 6323, balance_result.channel_balance = 983\<rparr> \<and>
   (\<exists>r'. get_balance sum_tokens node_a
            (balance_args_a\<lparr>above := Some 100, below := None, is_confirmed := Some True,
               is_offchain_only := Some True, is_onchain_only := Some False\<rparr>) = Inr r' \<and>
          balance_result.channel_balance r' = 983)"
proof -
  have run: "get_balance sum_tokens node_a balance_args_a =
      Inr \<lparr>balance = 6323, balance_result.channel_balance = 983\<rparr>"
    by (simp add: get_balance_def validate_balance_def balance_task_def futureCommitFees_def
        node_a_def balance_args_a_def sum_tokens_def truthy_bool_def none_def)
  from get_balance_channel_balance [OF run]
  have "\<forall>ab be c off on. \<exists>r'.
      get_balance sum_tokens node_a
        (balance_args_a\<lparr>above := ab, below := be, is_confirmed := c,
           is_offchain_only := off, is_onchain_only := on\<rparr>) = Inr r' \<and>
      balance_result.channel_balance r' = 983"
    by auto
  then show ?thesis
    using run by blast
qed

end
